theory Spec2Isabelle
  imports Complex_Main "HOL-Library.AList"
begin

section \<open>Keplerian elements to Cartesian state vectors (k2c-test.py)\<close>

text \<open>
  Python floats are idealised as \<^typ>\<open>real\<close>: rounding, overflow, infinities and NaN are
  outside the model. Every exception the arithmetic of the source can raise on finite
  numbers is a value of \<open>error\<close>, and every stage returns \<open>error + result\<close>.
\<close>

subsection \<open>Exceptions and the library calls of the source\<close>

datatype error = ZeroDivisionError | ValueError | NameError string

type_synonym vec3 = "real \<times> real \<times> real"

text \<open>Float division \<open>x / y\<close>: raises ZeroDivisionError when the divisor is zero.\<close>

definition py_div :: "real \<Rightarrow> real \<Rightarrow> error + real" where
  "py_div x y = (if y = 0 then Inl ZeroDivisionError else Inr (x / y))"

text \<open>\<open>math.sqrt\<close>: raises ValueError (math domain error) on a negative argument.\<close>

definition py_sqrt :: "real \<Rightarrow> error + real" where
  "py_sqrt x = (if x < 0 then Inl ValueError else Inr (sqrt x))"

text \<open>
  \<open>math.atan2 y x\<close>: the angle of the point \<open>(x, y)\<close> in \<open>(-pi, pi]\<close>; it raises nothing,
  and returns 0 at the origin.
\<close>

definition atan2 :: "real \<Rightarrow> real \<Rightarrow> real" where
  "atan2 y x =
     (if 0 < x then arctan (y / x)
      else if x < 0 then (if 0 \<le> y then arctan (y / x) + pi else arctan (y / x) - pi)
      else if 0 < y then pi / 2
      else if y < 0 then - (pi / 2)
      else 0)"

text \<open>
  A Python function looks a global name up when the expression that mentions it is
  evaluated, in the namespace of its module. The namespace is an argument of the model: the
  list of the names that are bound to a library with \<open>sin\<close>. A call \<open>m.sin(x)\<close> first
  looks the name \<open>m\<close> up, and the lookup of a name that is not bound raises NameError.
  The source file binds two such names, by \<open>import math\<close> and \<open>import numpy as np\<close>
  (lines 1 and 2).
\<close>

definition imported_modules :: "string list" where
  "imported_modules = [''math'', ''np'']"

definition module_sin :: "string list \<Rightarrow> string \<Rightarrow> real \<Rightarrow> error + real" where
  "module_sin ns m x = (if m \<in> set ns then Inr (sin x) else Inl (NameError m))"

subsection \<open>The stages of \<open>keplerian_to_cartesian\<close>\<close>

text \<open>Lines 36 to 43: the mean anomaly \<open>Mt\<close> at the considered epoch.\<close>

definition mean_anomaly :: "real \<Rightarrow> real \<Rightarrow> real \<Rightarrow> real \<Rightarrow> real \<Rightarrow> error + real" where
  "mean_anomaly a t0 t M0 mu =
     (if t = t0 then Inr M0
      else
        (let dt = 86400 * (t - t0) in
         case py_div mu (a ^ 3) of
           Inl err \<Rightarrow> Inl err
         | Inr q \<Rightarrow>
             (case py_sqrt q of
                Inl err \<Rightarrow> Inl err
              | Inr n \<Rightarrow> Inr (M0 + dt * n))))"

text \<open>
  Lines 47 to 57: the Newton-Raphson loop on the local variables \<open>i\<close>, \<open>E\<close> and \<open>F\<close>.
  \<open>newton_step\<close> is the loop body (lines 54 to 57), \<open>newton_raphson\<close> the loop
  \<open>while i < solveIterations\<close>; it returns the three variables as the loop leaves them.
\<close>

definition solveIterations :: int where
  "solveIterations = 30"

definition newton_step :: "real \<Rightarrow> real \<Rightarrow> int \<times> real \<times> real \<Rightarrow> error + (int \<times> real \<times> real)" where
  "newton_step e Mt s =
     (case s of (i, E, F) \<Rightarrow>
        (case py_div F (1 - e * cos E) of
           Inl err \<Rightarrow> Inl err
         | Inr q \<Rightarrow>
             (let E' = E - q;
                  F' = E' - e * sin E' - Mt
              in Inr (i + 1, E', F'))))"

function newton_raphson :: "real \<Rightarrow> real \<Rightarrow> int \<times> real \<times> real \<Rightarrow> error + (int \<times> real \<times> real)" where
  "newton_raphson e Mt (i, E, F) =
     (if i < solveIterations then
        (case newton_step e Mt (i, E, F) of
           Inl err \<Rightarrow> Inl err
         | Inr s' \<Rightarrow> newton_raphson e Mt s')
      else Inr (i, E, F))"
  by pat_completeness auto
termination
  by (relation "measure (\<lambda>(e, Mt, i, E, F). nat (solveIterations - i))")
     (auto simp: newton_step_def Let_def split: sum.splits)

declare newton_raphson.simps [simp del]

text \<open>Lines 60 to 63: the true anomaly \<open>nu\<close>.\<close>

definition true_anomaly :: "real \<Rightarrow> real \<Rightarrow> error + real" where
  "true_anomaly e E =
     (case py_sqrt (1 + e) of
        Inl err \<Rightarrow> Inl err
      | Inr s1 \<Rightarrow>
          (case py_sqrt (1 - e) of
             Inl err \<Rightarrow> Inl err
           | Inr s2 \<Rightarrow> Inr (2 * atan2 (s1 * sin (E / 2)) (s2 * cos (E / 2)))))"

text \<open>Line 66: the distance \<open>rc\<close> to the central body.\<close>

definition orbital_radius :: "real \<Rightarrow> real \<Rightarrow> real \<Rightarrow> real" where
  "orbital_radius a e E = a * (1 - e * cos E)"

text \<open>
  Line 71: the position \<open>o\<close> in the orbital frame,
  \<^verbatim>\<open>o = rc * np.array([math.cos(nu), maths.sin(nu), 0])\<close>.
  The sine is called through the name \<open>maths\<close>.
\<close>

definition orbital_position :: "string list \<Rightarrow> real \<Rightarrow> real \<Rightarrow> error + vec3" where
  "orbital_position ns rc nu =
     (case module_sin ns ''maths'' nu of
        Inl err \<Rightarrow> Inl err
      | Inr s \<Rightarrow> Inr (rc * cos nu, rc * s, rc * 0))"

text \<open>Lines 75 to 77: the velocity \<open>odot\<close> in the orbital frame.\<close>

definition orbital_velocity :: "real \<Rightarrow> real \<Rightarrow> real \<Rightarrow> real \<Rightarrow> real \<Rightarrow> error + vec3" where
  "orbital_velocity a e mu rc E =
     (case py_sqrt (mu * a) of
        Inl err \<Rightarrow> Inl err
      | Inr s \<Rightarrow>
          (case py_div s rc of
             Inl err \<Rightarrow> Inl err
           | Inr k \<Rightarrow>
               (case py_sqrt (1 - e * e) of
                  Inl err \<Rightarrow> Inl err
                | Inr b \<Rightarrow> Inr (k * (- sin E), k * (b * cos E), k * 0))))"

text \<open>
  Lines 80 to 94: the transform to the inertial frame. The source writes the same three
  expressions twice, once on \<open>o\<close> and once on \<open>odot\<close>; the third component of the vector is
  not read.
\<close>

definition to_inertial :: "real \<Rightarrow> real \<Rightarrow> real \<Rightarrow> vec3 \<Rightarrow> vec3" where
  "to_inertial w omega i v =
     (case v of (v0, v1, v2) \<Rightarrow>
        (v0 * (cos w * cos omega - sin w * cos i * sin omega)
           - v1 * (sin w * cos omega + cos w * cos i * sin omega),
         v0 * (cos w * sin omega + sin w * cos i * cos omega)
           - v1 * (cos w * cos i * cos omega - sin w * sin omega),
         v0 * (sin w * sin i) + v1 * (cos w * sin i)))"

text \<open>
  Lines 66 to 96: from the local variables that the solver and the true anomaly leave, the
  radius, the two vectors of the orbital frame and their transforms, which the function
  returns. The inclination read by lines 80 to 94 is the local variable \<open>i\<close>.
\<close>

definition inertial_state ::
  "string list \<Rightarrow> real \<Rightarrow> real \<Rightarrow> real \<Rightarrow> real \<Rightarrow> int \<Rightarrow> real \<Rightarrow> real \<Rightarrow> real \<Rightarrow> error + (vec3 \<times> vec3)" where
  "inertial_state ns a e w omega i mu E nu =
     (let rc = orbital_radius a e E in
      case orbital_position ns rc nu of
        Inl err \<Rightarrow> Inl err
      | Inr o' \<Rightarrow>
          (case orbital_velocity a e mu rc E of
             Inl err \<Rightarrow> Inl err
           | Inr odot \<Rightarrow>
               Inr (to_inertial w omega (real_of_int i) o',
                    to_inertial w omega (real_of_int i) odot)))"

text \<open>
  The whole function, in a namespace \<open>ns\<close>. The parameter \<open>i\<close> (the inclination) is a
  local variable of the body; line 48 assigns 0 to it and the loop counts with it, so the
  \<open>i\<close> that lines 80 to 94 read is the one the loop leaves.
\<close>

definition keplerian_to_cartesian_in ::
  "string list \<Rightarrow> real \<Rightarrow> real \<Rightarrow> real \<Rightarrow> real \<Rightarrow> real \<Rightarrow> real \<Rightarrow> real \<Rightarrow> real \<Rightarrow> real \<Rightarrow> error + (vec3 \<times> vec3)" where
  "keplerian_to_cartesian_in ns a e w omega i t0 t M0 mu =
     (case mean_anomaly a t0 t M0 mu of
        Inl err \<Rightarrow> Inl err
      | Inr Mt \<Rightarrow>
          (let i = 0;
               E = Mt;
               F = E - e * sin E - Mt
           in case newton_raphson e Mt (i, E, F) of
                Inl err \<Rightarrow> Inl err
              | Inr (i, E, F) \<Rightarrow>
                  (case true_anomaly e E of
                     Inl err \<Rightarrow> Inl err
                   | Inr nu \<Rightarrow> inertial_state ns a e w omega i mu E nu)))"

text \<open>The function of the source file: the body in the namespace that lines 1 and 2 build.\<close>

definition keplerian_to_cartesian ::
  "real \<Rightarrow> real \<Rightarrow> real \<Rightarrow> real \<Rightarrow> real \<Rightarrow> real \<Rightarrow> real \<Rightarrow> real \<Rightarrow> real \<Rightarrow> error + (vec3 \<times> vec3)" where
  "keplerian_to_cartesian a e w omega i t0 t M0 mu =
     keplerian_to_cartesian_in imported_modules a e w omega i t0 t M0 mu"

subsection \<open>The quantities the specification compares the code with\<close>

text \<open>
  The Newton-Raphson update as the specification writes it,
  \<open>E \<leftarrow> E - (E - e sin E - Mt) / (1 - e cos E)\<close>, as a function on the reals.
\<close>

definition newton_update :: "real \<Rightarrow> real \<Rightarrow> real \<Rightarrow> real" where
  "newton_update e Mt E = E - (E - e * sin E - Mt) / (1 - e * cos E)"

text \<open>
  The standard 3-1-3 Euler rotation of the specification: a rotation by the argument of
  periapsis about the z axis, then by the inclination about the x axis, then by the
  longitude of the ascending node about the z axis.
\<close>

definition rot_z :: "real \<Rightarrow> vec3 \<Rightarrow> vec3" where
  "rot_z th v = (case v of (x, y, z) \<Rightarrow> (x * cos th - y * sin th, x * sin th + y * cos th, z))"

definition rot_x :: "real \<Rightarrow> vec3 \<Rightarrow> vec3" where
  "rot_x th v = (case v of (x, y, z) \<Rightarrow> (x, y * cos th - z * sin th, y * sin th + z * cos th))"

definition euler313 :: "real \<Rightarrow> real \<Rightarrow> real \<Rightarrow> vec3 \<Rightarrow> vec3" where
  "euler313 w i omega v = rot_z omega (rot_x i (rot_z w v))"

definition vnorm :: "vec3 \<Rightarrow> real" where
  "vnorm v = (case v of (x, y, z) \<Rightarrow> sqrt (x\<^sup>2 + y\<^sup>2 + z\<^sup>2))"

section \<open>Merging the fetched catalogue (planets-api.py, lines 64 to 78)\<close>

text \<open>
  A Python dict is an association list in insertion order: \<open>AList.update\<close> replaces the
  value of a key where the key stands and appends a new key at the end, as assignment to
  \<open>d[k]\<close> does. A body is a dict from field names to values; the catalogues \<open>bodies\<close>
  and \<open>bodies_prev\<close> are dicts from identifiers to bodies.
\<close>

type_synonym 'v body = "(string \<times> 'v) list"

text \<open>\<open>x.update(y)\<close>: every item of \<open>y\<close> is assigned into \<open>x\<close>, in the order of \<open>y\<close>.\<close>

definition dict_update :: "('k \<times> 'v) list \<Rightarrow> ('k \<times> 'v) list \<Rightarrow> ('k \<times> 'v) list" where
  "dict_update x y = fold (\<lambda>(k, v). AList.update k v) y x"

text \<open>Lines 65 to 69: the body of the loop over \<open>bodies.items()\<close>.\<close>

definition merge_step :: "string \<times> 'v body \<Rightarrow> (string \<times> 'v body) list \<Rightarrow> (string \<times> 'v body) list" where
  "merge_step item bodies_prev =
     (case item of (key, body) \<Rightarrow>
        (case map_of bodies_prev key of
           None \<Rightarrow> AList.update key body bodies_prev
         | Some prev \<Rightarrow> AList.update key (dict_update prev body) bodies_prev))"

text \<open>
  Lines 64 to 69: the loop; it returns \<open>bodies_prev\<close> as the loop leaves it. Line 71 takes
  the values of that dict, in order.
\<close>

definition merge_loop :: "(string \<times> 'v body) list \<Rightarrow> (string \<times> 'v body) list \<Rightarrow> (string \<times> 'v body) list" where
  "merge_loop bodies bodies_prev = fold merge_step bodies bodies_prev"

definition merged_bodies :: "(string \<times> 'v body) list \<Rightarrow> (string \<times> 'v body) list \<Rightarrow> 'v body list" where
  "merged_bodies bodies bodies_prev = map snd (merge_loop bodies bodies_prev)"

text \<open>
  What the specification says of one stored body: the fields of the fetch laid over the
  stored fields, when the body was fetched, and the stored body otherwise.
\<close>

definition merged_entry :: "(string \<times> 'v body) list \<Rightarrow> string \<times> 'v body \<Rightarrow> string \<times> 'v body" where
  "merged_entry bodies item =
     (case item of (k, prev) \<Rightarrow>
        (k, case map_of bodies k of None \<Rightarrow> prev | Some fresh \<Rightarrow> dict_update prev fresh))"

text \<open>
  Lines 74 to 78: the two warnings of one body. The name is printed through an f-string;
  \<open>fmt\<close> is the conversion of a value to text.
\<close>

definition colour_warning :: "('v \<Rightarrow> string) \<Rightarrow> 'v body \<Rightarrow> string list" where
  "colour_warning fmt body =
     (case map_of body ''name'' of
        None \<Rightarrow> []
      | Some n \<Rightarrow>
          (if map_of body ''colour'' = None
           then [''WARNING: '' @ fmt n @ '' has not been designated a colour'']
           else []))"

definition parent_warning :: "('v \<Rightarrow> string) \<Rightarrow> 'v body \<Rightarrow> string list" where
  "parent_warning fmt body =
     (case map_of body ''name'' of
        None \<Rightarrow> []
      | Some n \<Rightarrow>
          (if map_of body ''parent'' = None
           then [''WARNING: '' @ fmt n @ '' has no parent'']
           else []))"

text \<open>Lines 73 to 78: the lines printed by the loop over the merged bodies, in order.\<close>

definition warnings :: "('v \<Rightarrow> string) \<Rightarrow> 'v body list \<Rightarrow> string list" where
  "warnings fmt bodies = concat (map (\<lambda>body. colour_warning fmt body @ parent_warning fmt body) bodies)"

section \<open>Properties of \<open>keplerian_to_cartesian\<close>\<close>

subsection \<open>The Newton-Raphson loop\<close>

lemma newton_step_counter: "newton_step e Mt (i, E, F) = Inr (i', E', F') \<Longrightarrow> i' = i + 1"
  by (auto simp: newton_step_def Let_def split: sum.splits)

lemma newton_step_error: "newton_step e Mt s = Inl err \<Longrightarrow> err = ZeroDivisionError"
  by (auto simp: newton_step_def py_div_def Let_def split: sum.splits prod.splits if_splits)

lemma newton_raphson_error: "newton_raphson e Mt s = Inl err \<Longrightarrow> err = ZeroDivisionError"
proof (induction e Mt s rule: newton_raphson.induct)
  case (1 e Mt i E F)
  then show ?case
    by (auto simp: newton_raphson.simps[of e Mt i E F] split: if_splits sum.splits dest: newton_step_error)
qed

lemma newton_raphson_counter:
  "newton_raphson e Mt (i, E, F) = Inr (k, E', F') \<Longrightarrow> i \<le> solveIterations \<Longrightarrow> k = solveIterations"
proof (induction e Mt "(i, E, F)" arbitrary: i E F rule: newton_raphson.induct)
  case (1 e Mt i E F)
  show ?case
  proof (cases "i < solveIterations")
    case True
    with 1 show ?thesis
      by (auto simp: newton_raphson.simps[of e Mt i E F] split: sum.splits dest: newton_step_counter)
  next
    case False
    with 1 show ?thesis by (simp add: newton_raphson.simps[of e Mt i E F])
  qed
qed

lemma denom_nonzero: "\<bar>e::real\<bar> < 1 \<Longrightarrow> 1 - e * cos E \<noteq> 0"
proof -
  assume e: "\<bar>e\<bar> < 1"
  have "\<bar>e * cos E\<bar> = \<bar>e\<bar> * \<bar>cos E\<bar>" by (rule abs_mult)
  also have "\<dots> \<le> \<bar>e\<bar> * 1" by (rule mult_left_mono) simp_all
  finally have "\<bar>e * cos E\<bar> < 1" using e by simp
  then show ?thesis by auto
qed

lemma newton_step_update:
  "1 - e * cos E \<noteq> 0 \<Longrightarrow>
   newton_step e Mt (i, E, E - e * sin E - Mt) =
     Inr (i + 1, newton_update e Mt E, newton_update e Mt E - e * sin (newton_update e Mt E) - Mt)"
  by (simp add: newton_step_def py_div_def newton_update_def Let_def)

lemma newton_raphson_iterates:
  "\<bar>e\<bar> < 1 \<Longrightarrow> i \<le> solveIterations \<Longrightarrow>
   newton_raphson e Mt (i, E, E - e * sin E - Mt) =
     (let E' = (newton_update e Mt ^^ nat (solveIterations - i)) E
      in Inr (solveIterations, E', E' - e * sin E' - Mt))"
proof (induction "nat (solveIterations - i)" arbitrary: i E)
  case 0
  then have "i = solveIterations" by simp
  then show ?case by (simp add: newton_raphson.simps[of e Mt solveIterations])
next
  case (Suc n)
  then have lt: "i < solveIterations" and n: "n = nat (solveIterations - (i + 1))" by auto
  have d: "1 - e * cos E \<noteq> 0" using Suc.prems(1) by (rule denom_nonzero)
  have s: "nat (solveIterations - i) = Suc (nat (solveIterations - (i + 1)))" using lt by simp
  show ?case
    using Suc.hyps(1)[OF n Suc.prems(1), of "newton_update e Mt E"] lt
    by (simp add: newton_raphson.simps[of e Mt i] newton_step_update[OF d] s funpow_swap1 Let_def)
qed

lemma newton_raphson_fixed:
  "E - e * sin E - Mt = 0 \<Longrightarrow> 1 - e * cos E \<noteq> 0 \<Longrightarrow> i \<le> solveIterations \<Longrightarrow>
   newton_raphson e Mt (i, E, 0) = Inr (solveIterations, E, 0)"
proof (induction "nat (solveIterations - i)" arbitrary: i)
  case 0
  then have "i = solveIterations" by simp
  then show ?case by (simp add: newton_raphson.simps[of e Mt solveIterations])
next
  case (Suc n)
  then have lt: "i < solveIterations" and n: "n = nat (solveIterations - (i + 1))" by auto
  have st: "newton_step e Mt (i, E, 0) = Inr (i + 1, E, 0)"
    using Suc.prems(1,2) by (simp add: newton_step_def py_div_def)
  show ?case using Suc.hyps(1)[OF n Suc.prems(1,2)] lt
    by (simp add: newton_raphson.simps[of e Mt i] st)
qed

lemma newton_raphson_circular:
  "i \<le> solveIterations \<Longrightarrow> newton_raphson 0 Mt (i, Mt, 0) = Inr (solveIterations, Mt, 0)"
proof (induction "nat (solveIterations - i)" arbitrary: i)
  case 0
  then have "i = solveIterations" by simp
  then show ?case by (simp add: newton_raphson.simps[of 0 Mt solveIterations])
next
  case (Suc n)
  then have lt: "i < solveIterations" and n: "n = nat (solveIterations - (i + 1))" by auto
  have st: "newton_step 0 Mt (i, Mt, 0) = Inr (i + 1, Mt, 0)"
    by (simp add: newton_step_def py_div_def)
  show ?case using Suc.hyps(1)[OF n] lt
    by (simp add: newton_raphson.simps[of 0 Mt i] st)
qed

lemma newton_raphson_valid:
  assumes "\<bar>e\<bar> < 1"
  shows "\<exists>E F. newton_raphson e Mt (0, Mt, Mt - e * sin Mt - Mt) = Inr (solveIterations, E, F)"
  using newton_raphson_iterates[OF assms, of 0 Mt Mt]
  by (simp add: Let_def solveIterations_def)


subsection \<open>The arctangent of two arguments and the true anomaly\<close>

lemma atan2_range: "- pi < atan2 y x \<and> atan2 y x \<le> pi"
proof -
  have b: "- (pi / 2) < arctan (y / x)" "arctan (y / x) < pi / 2"
    by (rule arctan_lbound, rule arctan_ubound)
  have p: "x < 0 \<Longrightarrow> 0 \<le> y \<Longrightarrow> arctan (y / x) \<le> 0"
    by (simp add: divide_nonneg_neg arctan_le_zero_iff)
  have n: "x < 0 \<Longrightarrow> y < 0 \<Longrightarrow> 0 < arctan (y / x)"
    by (simp add: divide_neg_neg arctan_less_zero_iff zero_less_arctan_iff)
  show ?thesis
    using b p n pi_gt_zero by (auto simp: atan2_def)
qed

lemma atan2_unit:
  assumes "x\<^sup>2 + y\<^sup>2 = 1"
  shows "cos (atan2 y x) = x \<and> sin (atan2 y x) = y"
proof -
  have r: "x \<noteq> 0 \<Longrightarrow> sqrt (1 + (y / x)\<^sup>2) = 1 / \<bar>x\<bar>"
  proof -
    assume x: "x \<noteq> 0"
    have "1 + (y / x)\<^sup>2 = (x\<^sup>2 + y\<^sup>2) / x\<^sup>2"
      using x by (simp add: field_simps power2_eq_square)
    also have "\<dots> = (1 / \<bar>x\<bar>)\<^sup>2" using assms by (simp add: power_divide)
    finally show ?thesis by (simp add: real_sqrt_abs)
  qed
  consider "0 < x" | "x < 0" | "x = 0" by linarith
  then show ?thesis
  proof cases
    case 1
    then show ?thesis using r by (simp add: atan2_def cos_arctan sin_arctan)
  next
    case 2
    then show ?thesis using r by (simp add: atan2_def cos_arctan sin_arctan)
  next
    case 3
    then have "y\<^sup>2 = 1" using assms by simp
    then have "y = 1 \<or> y = -1" by (simp add: power2_eq_1_iff)
    then show ?thesis using 3 by (auto simp: atan2_def)
  qed
qed

lemma atan2_sin_cos:
  assumes "- pi < h" "h \<le> pi"
  shows "atan2 (sin h) (cos h) = h"
proof -
  have u: "cos (atan2 (sin h) (cos h)) = cos h \<and> sin (atan2 (sin h) (cos h)) = sin h"
    by (rule atan2_unit) (simp add: add.commute)
  then obtain n :: int where n: "atan2 (sin h) (cos h) = h + 2 * pi * n"
    using sin_cos_eq_iff[of "atan2 (sin h) (cos h)" h] by auto
  have rg: "- pi < atan2 (sin h) (cos h)" "atan2 (sin h) (cos h) \<le> pi"
    using atan2_range by auto
  have "n = 0"
  proof (rule ccontr)
    assume "n \<noteq> 0"
    then consider "n \<ge> 1" | "n \<le> -1" by linarith
    then show False
    proof cases
      case 1
      then have "2 * pi * 1 \<le> 2 * pi * real_of_int n" 
        by (intro mult_left_mono) auto
      then show False using n rg assms by linarith
    next
      case 2
      then have "2 * pi * real_of_int n \<le> 2 * pi * (-1)" 
        by (intro mult_left_mono) auto
      then show False using n rg assms by linarith
    qed
  qed
  then show ?thesis using n by simp
qed

lemma true_anomaly_circular: "- (2 * pi) < E \<Longrightarrow> E \<le> 2 * pi \<Longrightarrow> true_anomaly 0 E = Inr E"
  using atan2_sin_cos[of "E / 2"] by (simp add: true_anomaly_def py_sqrt_def)

lemma true_anomaly_circular_cos_sin:
  "\<exists>nu. true_anomaly 0 E = Inr nu \<and> cos nu = cos E \<and> sin nu = sin E"
proof -
  let ?th = "atan2 (sin (E / 2)) (cos (E / 2))"
  have u: "cos ?th = cos (E / 2)" "sin ?th = sin (E / 2)"
    using atan2_unit[of "cos (E / 2)" "sin (E / 2)"] by (simp_all add: add.commute)
  have "cos (2 * ?th) = cos (2 * (E / 2))" "sin (2 * ?th) = sin (2 * (E / 2))"
    unfolding cos_double sin_double u by simp_all
  then show ?thesis by (simp add: true_anomaly_def py_sqrt_def)
qed

lemma true_anomaly_valid: "- 1 \<le> e \<Longrightarrow> e \<le> 1 \<Longrightarrow> \<exists>nu. true_anomaly e E = Inr nu"
  by (simp add: true_anomaly_def py_sqrt_def)


subsection \<open>The mean anomaly and the orbital frame\<close>

lemma mean_anomaly_valid:
  "0 < a \<Longrightarrow> 0 < mu \<Longrightarrow> 
   mean_anomaly a t0 t M0 mu = Inr (if t = t0 then M0 else M0 + 86400 * (t - t0) * sqrt (mu / a ^ 3))"
proof -
  assume "0 < a" "0 < mu"
  then have "a ^ 3 \<noteq> 0" "\<not> mu / a ^ 3 < 0" by (simp_all add: not_less)
  then show ?thesis by (simp add: mean_anomaly_def py_div_def py_sqrt_def Let_def)
qed

lemma orbital_position_NameError:
  "orbital_position imported_modules rc nu = Inl (NameError ''maths'')"
  by (simp add: orbital_position_def module_sin_def imported_modules_def)

lemma inertial_state_NameError:
  "inertial_state imported_modules a e w omega i mu E nu = Inl (NameError ''maths'')"
  by (simp add: inertial_state_def orbital_position_NameError)

lemma keplerian_to_cartesian_unfold:
  "keplerian_to_cartesian a e w omega i t0 t M0 mu =
     (case mean_anomaly a t0 t M0 mu of
        Inl err \<Rightarrow> Inl err
      | Inr Mt \<Rightarrow>
          (case newton_raphson e Mt (0, Mt, Mt - e * sin Mt - Mt) of
             Inl err \<Rightarrow> Inl err
           | Inr (k, E, F) \<Rightarrow>
               (case true_anomaly e E of
                  Inl err \<Rightarrow> Inl err
                | Inr nu \<Rightarrow> Inl (NameError ''maths''))))"
  unfolding keplerian_to_cartesian_def keplerian_to_cartesian_in_def Let_def
    inertial_state_NameError
  by (rule refl)

lemma scenario_velocity:
  "orbital_velocity a 0 mu a 0 = (if mu * a < 0 then Inl ValueError else if a = 0 then Inl ZeroDivisionError else Inr (0, sqrt (mu * a) / a, 0))"
  by (simp add: orbital_velocity_def py_sqrt_def py_div_def)

lemma to_inertial_scenario:
  "to_inertial 0 0 i (0, v, 0) = (0, - (v * cos i), v * sin i)"
  by (simp add: to_inertial_def)

lemma keplerian_to_cartesian_in_unfold:
  "keplerian_to_cartesian_in ns a e w omega i t0 t M0 mu =
     (case mean_anomaly a t0 t M0 mu of
        Inl err \<Rightarrow> Inl err
      | Inr Mt \<Rightarrow>
          (case newton_raphson e Mt (0, Mt, Mt - e * sin Mt - Mt) of
             Inl err \<Rightarrow> Inl ZeroDivisionError
           | Inr (k, E, F) \<Rightarrow>
               (case true_anomaly e E of
                  Inl err \<Rightarrow> Inl err
                | Inr nu \<Rightarrow> inertial_state ns a e w omega 30 mu E nu)))"
proof (cases "mean_anomaly a t0 t M0 mu")
  case (Inl err)
  then show ?thesis by (simp add: keplerian_to_cartesian_in_def)
next
  case (Inr Mt)
  show ?thesis
  proof (cases "newton_raphson e Mt (0, Mt, Mt - e * sin Mt - Mt)")
    case (Inl err)
    then have "err = ZeroDivisionError" by (rule newton_raphson_error)
    with Inl Inr show ?thesis by (simp add: keplerian_to_cartesian_in_def)
  next
    case r: (Inr s)
    obtain k E F where s: "s = (k, E, F)" by (cases s)
    have "k = 30"
      using newton_raphson_counter[of e Mt 0 Mt "Mt - e * sin Mt - Mt" k E F] r s
      by (simp add: solveIterations_def)
    with r s Inr show ?thesis by (simp add: keplerian_to_cartesian_in_def)
  qed
qed

lemma inertial_state_resolved:
  "''maths'' \<in> set ns \<Longrightarrow>
   inertial_state ns a e w omega i mu E nu =
     (case orbital_velocity a e mu (orbital_radius a e E) E of
        Inl err \<Rightarrow> Inl err
      | Inr odot \<Rightarrow>
          Inr (to_inertial w omega (real_of_int i)
                 (orbital_radius a e E * cos nu, orbital_radius a e E * sin nu, 0),
               to_inertial w omega (real_of_int i) odot))"
  by (simp add: inertial_state_def orbital_position_def module_sin_def Let_def)

lemma inertial_state_unresolved:
  "''maths'' \<notin> set ns \<Longrightarrow> inertial_state ns a e w omega i mu E nu = Inl (NameError ''maths'')"
  by (simp add: inertial_state_def orbital_position_def module_sin_def Let_def)

lemma mean_anomaly_cases:
  "mean_anomaly a t0 t M0 mu =
     (if t = t0 then Inr M0
      else if a = 0 then Inl ZeroDivisionError
      else if mu / a ^ 3 < 0 then Inl ValueError
      else Inr (M0 + 86400 * (t - t0) * sqrt (mu / a ^ 3)))"
  by (simp add: mean_anomaly_def py_div_def py_sqrt_def Let_def)

lemma true_anomaly_cases:
  "true_anomaly e E =
     (if e < - 1 \<or> 1 < e then Inl ValueError
      else Inr (2 * atan2 (sqrt (1 + e) * sin (E / 2)) (sqrt (1 - e) * cos (E / 2))))"
  by (auto simp: true_anomaly_def py_sqrt_def)

lemma keplerian_to_cartesian_never_returns:
  "keplerian_to_cartesian a e w omega i t0 t M0 mu \<noteq> Inr sv"
  by (simp add: keplerian_to_cartesian_unfold split: sum.splits prod.splits)

subsection \<open>The transform to the inertial frame and the 3-1-3 rotation\<close>

lemma to_inertial_linear:
  "to_inertial w omega i (c * x + x', c * y + y', c * z + z') =
   (case (to_inertial w omega i (x, y, z), to_inertial w omega i (x', y', z')) of
      ((p, q, r), (p', q', r')) \<Rightarrow> (c * p + p', c * q + q', c * r + r'))"
  by (simp add: to_inertial_def algebra_simps)

lemma euler313_components:
  "euler313 w i omega (x, y, 0) =
     (x * (cos w * cos omega - sin w * cos i * sin omega)
        - y * (sin w * cos omega + cos w * cos i * sin omega),
      x * (cos w * sin omega + sin w * cos i * cos omega)
        + y * (cos w * cos i * cos omega - sin w * sin omega),
      x * (sin w * sin i) + y * (cos w * sin i))"
  by (simp add: euler313_def rot_z_def rot_x_def algebra_simps)

lemma to_inertial_sign:
  "to_inertial w omega i (x, y, z) =
     (case euler313 w i omega (x, y, 0) of
        (p, q, r) \<Rightarrow> (p, q - 2 * y * (cos w * cos i * cos omega - sin w * sin omega), r))"
  by (simp add: euler313_components to_inertial_def algebra_simps)

lemma rot_sq: "(x * c - y * s)\<^sup>2 + (x * s + y * c)\<^sup>2 = (x\<^sup>2 + y\<^sup>2) * (s\<^sup>2 + c\<^sup>2)" for x :: real
  by (simp add: power2_eq_square algebra_simps)

lemma rot_z_norm: "vnorm (rot_z th v) = vnorm v"
proof (cases v)
  case (fields x y z)
  have "(x * cos th - y * sin th)\<^sup>2 + (x * sin th + y * cos th)\<^sup>2 = x\<^sup>2 + y\<^sup>2"
    by (simp add: rot_sq)
  then show ?thesis using fields by (simp add: vnorm_def rot_z_def)
qed

lemma rot_x_norm: "vnorm (rot_x th v) = vnorm v"
proof (cases v)
  case (fields x y z)
  have "(y * cos th - z * sin th)\<^sup>2 + (y * sin th + z * cos th)\<^sup>2 = y\<^sup>2 + z\<^sup>2"
    by (simp add: rot_sq)
  then show ?thesis using fields by (simp add: vnorm_def rot_x_def add.assoc)
qed

lemma euler313_norm: "vnorm (euler313 w i omega v) = vnorm v"
  by (simp add: euler313_def rot_z_norm rot_x_norm)

section \<open>The claims about \<open>keplerian_to_cartesian\<close>\<close>

text \<open>
  Claim C1. On every valid input (\<open>a > 0\<close>, \<open>0 \<le> e < 1\<close>, \<open>mu > 0\<close>) the call should
  evaluate the orbital-plane position and return. In the code the mean anomaly, the solver
  and the true anomaly succeed on such an input, and line 71 then looks the name \<open>maths\<close>
  up, which the module does not bind: the call raises NameError and returns nothing.
\<close>

theorem keplerian_to_cartesian_NameError:
  assumes "0 < a" "0 \<le> e" "e < 1" "0 < mu"
  shows "keplerian_to_cartesian a e w omega i t0 t M0 mu = Inl (NameError ''maths'')"
proof -
  have e: "\<bar>e\<bar> < 1" using assms by simp
  obtain Mt where Mt: "mean_anomaly a t0 t M0 mu = Inr Mt"
    using mean_anomaly_valid[OF assms(1,4)] by blast
  obtain E F where l: "newton_raphson e Mt (0, Mt, Mt - e * sin Mt - Mt) = Inr (solveIterations, E, F)"
    using newton_raphson_valid[OF e] by blast
  obtain nu where nu: "true_anomaly e E = Inr nu"
    using true_anomaly_valid[of e E] assms by auto
  show ?thesis
    using l by (simp add: keplerian_to_cartesian_unfold Mt nu orbital_position_NameError)
qed

text \<open>
  Claim C1, at the input \<open>a = 2\<close>, \<open>e = 1/2\<close>, \<open>t0 = 0\<close>, \<open>t = 1\<close>, \<open>M0 = 0\<close>,
  \<open>mu = 3\<close> and all angles 0.
\<close>

theorem keplerian_to_cartesian_NameError_witness:
  "(0::real) < 2 \<and> (0::real) \<le> 1 / 2 \<and> (1 / 2 :: real) < 1 \<and> (0::real) < 3
   \<and> keplerian_to_cartesian 2 (1 / 2) 0 0 0 0 1 0 3 = Inl (NameError ''maths'')"
  using keplerian_to_cartesian_NameError[of 2 "1 / 2" 3 0 0 0 0 1 0] by simp

text \<open>
  Claim C2. Two calls that differ in the inclination \<open>i\<close> only give the same result or
  the same error, in the namespace of the source file and in every other one: line 48
  overwrites \<open>i\<close> before anything reads it. Whenever a call returns (which takes a
  namespace that binds \<open>maths\<close>), the loop has left the counter at 30, and the position
  and the velocity returned are the transforms of lines 80 to 94 at the angle 30 of the
  orbital-plane position and velocity.
\<close>

theorem inclination_overwritten:
  "keplerian_to_cartesian a e w omega i t0 t M0 mu = keplerian_to_cartesian a e w omega i' t0 t M0 mu
   \<and> keplerian_to_cartesian_in ns a e w omega i t0 t M0 mu
       = keplerian_to_cartesian_in ns a e w omega i' t0 t M0 mu
   \<and> (\<forall>r rdot. keplerian_to_cartesian_in ns a e w omega i t0 t M0 mu = Inr (r, rdot) \<longrightarrow>
        (\<exists>Mt E F nu odot.
            mean_anomaly a t0 t M0 mu = Inr Mt
          \<and> newton_raphson e Mt (0, Mt, Mt - e * sin Mt - Mt) = Inr (30, E, F)
          \<and> true_anomaly e E = Inr nu
          \<and> orbital_velocity a e mu (orbital_radius a e E) E = Inr odot
          \<and> r = to_inertial w omega 30
                  (orbital_radius a e E * cos nu, orbital_radius a e E * sin nu, 0)
          \<and> rdot = to_inertial w omega 30 odot))"
proof (intro conjI allI impI)
  show "keplerian_to_cartesian a e w omega i t0 t M0 mu = keplerian_to_cartesian a e w omega i' t0 t M0 mu"
    unfolding keplerian_to_cartesian_def keplerian_to_cartesian_in_unfold by (rule refl)
  show "keplerian_to_cartesian_in ns a e w omega i t0 t M0 mu
       = keplerian_to_cartesian_in ns a e w omega i' t0 t M0 mu"
    unfolding keplerian_to_cartesian_in_unfold by (rule refl)
next
  fix r rdot
  assume ret: "keplerian_to_cartesian_in ns a e w omega i t0 t M0 mu = Inr (r, rdot)"
  from ret obtain Mt where Mt: "mean_anomaly a t0 t M0 mu = Inr Mt"
    by (cases "mean_anomaly a t0 t M0 mu") (simp_all add: keplerian_to_cartesian_in_unfold)
  from ret Mt obtain s where s: "newton_raphson e Mt (0, Mt, Mt - e * sin Mt - Mt) = Inr s"
    by (cases "newton_raphson e Mt (0, Mt, Mt - e * sin Mt - Mt)")
       (simp_all add: keplerian_to_cartesian_in_unfold)
  obtain k E F where kEF: "s = (k, E, F)" by (cases s)
  have k: "k = 30"
    using newton_raphson_counter[of e Mt 0 Mt "Mt - e * sin Mt - Mt" k E F] s kEF
    by (simp add: solveIterations_def)
  from ret Mt s kEF obtain nu where nu: "true_anomaly e E = Inr nu"
    by (cases "true_anomaly e E") (simp_all add: keplerian_to_cartesian_in_unfold)
  from ret Mt s kEF nu have st: "inertial_state ns a e w omega 30 mu E nu = Inr (r, rdot)"
    by (simp add: keplerian_to_cartesian_in_unfold)
  then have ns: "''maths'' \<in> set ns"
    using inertial_state_unresolved[of ns a e w omega 30 mu E nu] by auto
  from st obtain odot where odot: "orbital_velocity a e mu (orbital_radius a e E) E = Inr odot"
    and r: "r = to_inertial w omega 30 (orbital_radius a e E * cos nu, orbital_radius a e E * sin nu, 0)"
    and rdot: "rdot = to_inertial w omega 30 odot"
    unfolding inertial_state_resolved[OF ns]
    by (cases "orbital_velocity a e mu (orbital_radius a e E) E") simp_all
  show "\<exists>Mt E F nu odot.
            mean_anomaly a t0 t M0 mu = Inr Mt
          \<and> newton_raphson e Mt (0, Mt, Mt - e * sin Mt - Mt) = Inr (30, E, F)
          \<and> true_anomaly e E = Inr nu
          \<and> orbital_velocity a e mu (orbital_radius a e E) E = Inr odot
          \<and> r = to_inertial w omega 30
                  (orbital_radius a e E * cos nu, orbital_radius a e E * sin nu, 0)
          \<and> rdot = to_inertial w omega 30 odot"
    using Mt s kEF k nu odot r rdot by blast
qed

text \<open>
  Claim C2 in a namespace that binds \<open>maths\<close>, at \<open>a = 1\<close>, \<open>e = 0\<close>, \<open>mu = 1\<close> and
  \<open>t = t0\<close>: with the inclination 0 and with the inclination \<open>pi/2\<close> the call returns the
  position \<open>(1, 0, 0)\<close> and the velocity \<open>(0, - cos 30, sin 30)\<close>.
\<close>

theorem inclination_overwritten_witness:
  "keplerian_to_cartesian_in [''math'', ''np'', ''maths''] 1 0 0 0 0 0 0 0 1
     = Inr ((1, 0, 0), (0, - cos 30, sin 30))
   \<and> keplerian_to_cartesian_in [''math'', ''np'', ''maths''] 1 0 0 0 (pi / 2) 0 0 0 1
     = Inr ((1, 0, 0), (0, - cos 30, sin 30))
   \<and> (\<exists>Mt E F nu odot.
          mean_anomaly 1 0 0 0 1 = Inr Mt
        \<and> newton_raphson 0 Mt (0, Mt, Mt - 0 * sin Mt - Mt) = Inr (30, E, F)
        \<and> true_anomaly 0 E = Inr nu
        \<and> orbital_velocity 1 0 1 (orbital_radius 1 0 E) E = Inr odot
        \<and> (1, 0, 0) = to_inertial 0 0 30 (orbital_radius 1 0 E * cos nu, orbital_radius 1 0 E * sin nu, 0)
        \<and> (0, - cos 30, sin 30) = to_inertial 0 0 30 odot)"
proof -
  let ?ns = "[''math'', ''np'', ''maths'']"
  have l: "newton_raphson 0 0 (0, 0, 0) = Inr (30, 0, 0)"
    using newton_raphson_circular[of 0 0] by (simp add: solveIterations_def)
  have ta: "true_anomaly 0 0 = Inr 0" by (simp add: true_anomaly_circular)
  have v: "keplerian_to_cartesian_in ?ns 1 0 0 0 0 0 0 0 1 = Inr ((1, 0, 0), (0, - cos 30, sin 30))"
    by (simp add: keplerian_to_cartesian_in_unfold mean_anomaly_def l ta inertial_state_resolved
        orbital_velocity_def orbital_radius_def py_sqrt_def py_div_def to_inertial_def)
  note th = inclination_overwritten[of 1 0 0 0 0 0 0 0 1 "pi / 2" ?ns]
  from th v have v': "keplerian_to_cartesian_in ?ns 1 0 0 0 (pi / 2) 0 0 0 1 = Inr ((1, 0, 0), (0, - cos 30, sin 30))"
    by simp
  from th v have ex: "\<exists>Mt E F nu odot.
          mean_anomaly 1 0 0 0 1 = Inr Mt
        \<and> newton_raphson 0 Mt (0, Mt, Mt - 0 * sin Mt - Mt) = Inr (30, E, F)
        \<and> true_anomaly 0 E = Inr nu
        \<and> orbital_velocity 1 0 1 (orbital_radius 1 0 E) E = Inr odot
        \<and> (1, 0, 0) = to_inertial 0 0 30 (orbital_radius 1 0 E * cos nu, orbital_radius 1 0 E * sin nu, 0)
        \<and> (0, - cos 30, sin 30) = to_inertial 0 0 30 odot"
    by blast
  show ?thesis using v v' ex by blast
qed

text \<open>
  Claim C3, evaluated at \<open>a = 1\<close>, \<open>e = 0\<close>, \<open>w = pi/4\<close>, \<open>omega = pi/2\<close>, \<open>t = t0 = 0\<close>,
  \<open>M0 = pi/4\<close>, \<open>mu = 1\<close>. The call raises NameError. The orbital radius is 1 and the
  orbital-plane position with the sine resolved is \<open>(cos (pi/4), sin (pi/4), 0)\<close>; lines 80
  to 86, with the counter value 30 that \<open>i\<close> holds there, map it to a vector of norm
  \<open>sqrt 2\<close>, where the 3-1-3 rotation gives a vector with second component 0 and norm 1.
\<close>

theorem rotation_breaks_norm:
  "keplerian_to_cartesian 1 0 (pi / 4) (pi / 2) 0 0 0 (pi / 4) 1 = Inl (NameError ''maths'')
   \<and> orbital_radius 1 0 (pi / 4) = 1
   \<and> to_inertial (pi / 4) (pi / 2) 30 (cos (pi / 4), sin (pi / 4), 0) = (- cos 30, 1, sin 30)
   \<and> vnorm (- cos 30, 1, sin 30) = sqrt 2
   \<and> euler313 (pi / 4) 30 (pi / 2) (cos (pi / 4), sin (pi / 4), 0) = (- cos 30, 0, sin 30)"
proof (intro conjI)
  have h: "- (2 * pi) < pi / 4" "pi / 4 \<le> 2 * pi" using pi_gt_zero by linarith+
  have fx: "pi / 4 - 0 * sin (pi / 4) - pi / 4 = 0" "1 - 0 * cos (pi / 4) \<noteq> 0" by simp_all
  show "keplerian_to_cartesian 1 0 (pi / 4) (pi / 2) 0 0 0 (pi / 4) 1 = Inl (NameError ''maths'')"
    using newton_raphson_fixed[OF fx, of 0]
    by (simp add: keplerian_to_cartesian_unfold mean_anomaly_def solveIterations_def
        true_anomaly_circular[OF h] orbital_position_NameError)
  show "orbital_radius 1 0 (pi / 4) = 1" by (simp add: orbital_radius_def)
  have sq: "sqrt 2 * sqrt 2 = 2" by simp
  show "to_inertial (pi / 4) (pi / 2) 30 (cos (pi / 4), sin (pi / 4), 0) = (- cos 30, 1, sin 30)"
    by (simp add: to_inertial_def cos_45 sin_45 algebra_simps)
  show "vnorm (- cos 30, 1, sin 30) = sqrt 2"
  proof -
    have "(cos (30::real))\<^sup>2 + 1 + (sin 30)\<^sup>2 = 2" using sin_cos_squared_add[of "30::real"] by simp
    then show ?thesis by (simp add: vnorm_def)
  qed
  show "euler313 (pi / 4) 30 (pi / 2) (cos (pi / 4), sin (pi / 4), 0) = (- cos 30, 0, sin 30)"
    by (simp add: euler313_components cos_45 sin_45 algebra_simps)
qed

text \<open>
  Claim C4 fails on the code. With \<open>e = 2\<close> the solver runs its 30 iterations and the
  call then raises ValueError in the square root of \<open>1 - e\<close>; with \<open>a = -1\<close> or \<open>a = 0\<close>
  and \<open>t \<noteq> t0\<close> the arithmetic of the mean motion raises ValueError or ZeroDivisionError;
  with \<open>t = t0\<close>, \<open>a = -1\<close> and \<open>mu = -1\<close> pass into the solver unexamined.
\<close>

theorem validation_counterexample:
  "newton_raphson 2 0 (0, 0, 0 - 2 * sin 0 - 0) = Inr (30, 0, 0)
   \<and> keplerian_to_cartesian 1 2 0 0 0 0 0 0 1 = Inl ValueError
   \<and> keplerian_to_cartesian (- 1) 0 0 0 0 0 1 0 1 = Inl ValueError
   \<and> keplerian_to_cartesian 0 0 0 0 0 0 1 0 1 = Inl ZeroDivisionError
   \<and> mean_anomaly (- 1) 0 0 0 (- 1) = Inr 0"
proof (intro conjI)
  have l: "newton_raphson 2 0 (0, 0, 0) = Inr (30, 0, 0)"
    using newton_raphson_fixed[of 0 2 0 0] by (simp add: solveIterations_def)
  then show "newton_raphson 2 0 (0, 0, 0 - 2 * sin 0 - 0) = Inr (30, 0, 0)" by simp
  show "keplerian_to_cartesian 1 2 0 0 0 0 0 0 1 = Inl ValueError"
    by (simp add: keplerian_to_cartesian_unfold mean_anomaly_def l true_anomaly_def py_sqrt_def)
  show "keplerian_to_cartesian (- 1) 0 0 0 0 0 1 0 1 = Inl ValueError"
    by (simp add: keplerian_to_cartesian_unfold mean_anomaly_def py_div_def py_sqrt_def)
  show "keplerian_to_cartesian 0 0 0 0 0 0 1 0 1 = Inl ZeroDivisionError"
    by (simp add: keplerian_to_cartesian_unfold mean_anomaly_def py_div_def py_sqrt_def)
  show "mean_anomaly (- 1) 0 0 0 (- 1) = Inr 0"
    by (simp add: mean_anomaly_def)
qed

text \<open>
  Claim C4 as the code has it. Nothing is validated: in every namespace a call fails
  exactly where its arithmetic fails, in the order of the source. When \<open>t \<noteq> t0\<close>,
  \<open>a = 0\<close> raises ZeroDivisionError and otherwise a negative \<open>mu / a^3\<close> raises ValueError;
  when \<open>t = t0\<close>, \<open>a\<close> and \<open>mu\<close> are not examined and the mean anomaly is \<open>M0\<close>. The
  solver loop then runs for every \<open>e\<close>, and ends in ZeroDivisionError when an update
  divides by zero. Only after the loop, \<open>e < -1\<close> or \<open>e > 1\<close> raises ValueError in the
  square roots of the true anomaly; for every other \<open>e\<close>, with \<open>-1 \<le> e < 0\<close> and \<open>e = 1\<close>
  among them, the call goes on to lines 66 to 96 as it does for a valid eccentricity. A
  call of the source file with \<open>a \<le> 0\<close>, \<open>mu \<le> 0\<close>, \<open>e < 0\<close> or \<open>e \<ge> 1\<close> returns no state
  vector.
\<close>

theorem arithmetic_errors_only:
  "keplerian_to_cartesian_in ns a e w omega i t0 t M0 mu =
     (if t \<noteq> t0 \<and> a = 0 then Inl ZeroDivisionError
      else if t \<noteq> t0 \<and> mu / a ^ 3 < 0 then Inl ValueError
      else
        (let Mt = (if t = t0 then M0 else M0 + 86400 * (t - t0) * sqrt (mu / a ^ 3)) in
         case newton_raphson e Mt (0, Mt, Mt - e * sin Mt - Mt) of
           Inl err \<Rightarrow> Inl ZeroDivisionError
         | Inr (k, E, F) \<Rightarrow>
             if e < - 1 \<or> 1 < e then Inl ValueError
             else inertial_state ns a e w omega 30 mu E
                    (2 * atan2 (sqrt (1 + e) * sin (E / 2)) (sqrt (1 - e) * cos (E / 2)))))
   \<and> (a \<le> 0 \<or> mu \<le> 0 \<or> e < 0 \<or> 1 \<le> e \<longrightarrow>
        (\<forall>sv. keplerian_to_cartesian a e w omega i t0 t M0 mu \<noteq> Inr sv))"
proof (rule conjI)
  show "keplerian_to_cartesian_in ns a e w omega i t0 t M0 mu =
     (if t \<noteq> t0 \<and> a = 0 then Inl ZeroDivisionError
      else if t \<noteq> t0 \<and> mu / a ^ 3 < 0 then Inl ValueError
      else
        (let Mt = (if t = t0 then M0 else M0 + 86400 * (t - t0) * sqrt (mu / a ^ 3)) in
         case newton_raphson e Mt (0, Mt, Mt - e * sin Mt - Mt) of
           Inl err \<Rightarrow> Inl ZeroDivisionError
         | Inr (k, E, F) \<Rightarrow>
             if e < - 1 \<or> 1 < e then Inl ValueError
             else inertial_state ns a e w omega 30 mu E
                    (2 * atan2 (sqrt (1 + e) * sin (E / 2)) (sqrt (1 - e) * cos (E / 2)))))"
    unfolding keplerian_to_cartesian_in_unfold mean_anomaly_cases true_anomaly_cases Let_def
    by (auto split: sum.splits prod.splits)
  show "a \<le> 0 \<or> mu \<le> 0 \<or> e < 0 \<or> 1 \<le> e \<longrightarrow>
        (\<forall>sv. keplerian_to_cartesian a e w omega i t0 t M0 mu \<noteq> Inr sv)"
    using keplerian_to_cartesian_never_returns by blast
qed

text \<open>
  Claim C4 as the code has it, at five inputs: \<open>a = 0\<close> and \<open>a = -1\<close> with \<open>t \<noteq> t0\<close>;
  \<open>e = 2\<close> with \<open>M0 = pi/3\<close>, where the first update divides by zero, and with
  \<open>M0 = 0\<close>, where the loop completes and the square root fails; and \<open>a = -1\<close>,
  \<open>mu = -1\<close>, \<open>e = -1/2\<close> with \<open>t = t0\<close>, which reaches lines 66 to 96 and, in the source
  file, returns no state vector.
\<close>

theorem arithmetic_errors_only_witness:
  "keplerian_to_cartesian_in imported_modules 0 0 0 0 0 0 1 0 1 = Inl ZeroDivisionError
   \<and> keplerian_to_cartesian_in imported_modules (- 1) 0 0 0 0 0 1 0 1 = Inl ValueError
   \<and> keplerian_to_cartesian_in imported_modules 1 2 0 0 0 0 0 (pi / 3) 1 = Inl ZeroDivisionError
   \<and> keplerian_to_cartesian_in imported_modules 1 2 0 0 0 0 0 0 1 = Inl ValueError
   \<and> keplerian_to_cartesian_in [''math'', ''np'', ''maths''] (- 1) (- (1 / 2)) 0 0 0 0 0 0 (- 1)
       = inertial_state [''math'', ''np'', ''maths''] (- 1) (- (1 / 2)) 0 0 30 (- 1) 0 0
   \<and> ((- 1 :: real) \<le> 0 \<or> (- 1 :: real) \<le> 0 \<or> (- (1 / 2) :: real) < 0 \<or> (1 :: real) \<le> - (1 / 2))
   \<and> (\<forall>sv. keplerian_to_cartesian (- 1) (- (1 / 2)) 0 0 0 0 0 0 (- 1) \<noteq> Inr sv)"
proof (intro conjI)
  show "keplerian_to_cartesian_in imported_modules 0 0 0 0 0 0 1 0 1 = Inl ZeroDivisionError"
    using arithmetic_errors_only[of imported_modules 0 0 0 0 0 0 1 0 1] by simp
  show "keplerian_to_cartesian_in imported_modules (- 1) 0 0 0 0 0 1 0 1 = Inl ValueError"
    using arithmetic_errors_only[of imported_modules "- 1" 0 0 0 0 0 1 0 1] by simp
  have z: "newton_raphson 2 (pi / 3) (0, pi / 3, pi / 3 - 2 * sin (pi / 3) - pi / 3) = Inl ZeroDivisionError"
    by (simp add: newton_raphson.simps[of 2 "pi / 3" 0] solveIterations_def newton_step_def
        py_div_def cos_60)
  show "keplerian_to_cartesian_in imported_modules 1 2 0 0 0 0 0 (pi / 3) 1 = Inl ZeroDivisionError"
    using arithmetic_errors_only[of imported_modules 1 2 0 0 0 0 0 "pi / 3" 1] z by simp
  have l: "newton_raphson 2 0 (0, 0, 0) = Inr (30, 0, 0)"
    using newton_raphson_fixed[of 0 2 0 0] by (simp add: solveIterations_def)
  show "keplerian_to_cartesian_in imported_modules 1 2 0 0 0 0 0 0 1 = Inl ValueError"
    using arithmetic_errors_only[of imported_modules 1 2 0 0 0 0 0 0 1] l by simp
  have l': "newton_raphson (- (1 / 2)) 0 (0, 0, 0) = Inr (30, 0, 0)"
    using newton_raphson_fixed[of 0 "- (1 / 2)" 0 0] by (simp add: solveIterations_def)
  show "keplerian_to_cartesian_in [''math'', ''np'', ''maths''] (- 1) (- (1 / 2)) 0 0 0 0 0 0 (- 1)
       = inertial_state [''math'', ''np'', ''maths''] (- 1) (- (1 / 2)) 0 0 30 (- 1) 0 0"
    using arithmetic_errors_only[of "[''math'', ''np'', ''maths'']" "- 1" "- (1 / 2)" 0 0 0 0 0 0 "- 1"] l'
    by (simp add: atan2_def)
  show "(- 1 :: real) \<le> 0 \<or> (- 1 :: real) \<le> 0 \<or> (- (1 / 2) :: real) < 0 \<or> (1 :: real) \<le> - (1 / 2)"
    by simp
  show "\<forall>sv. keplerian_to_cartesian (- 1) (- (1 / 2)) 0 0 0 0 0 0 (- 1) \<noteq> Inr sv"
    using arithmetic_errors_only[of imported_modules "- 1" "- (1 / 2)" 0 0 0 0 0 0 "- 1"] by simp
qed

text \<open>
  Claim C5 fails for \<open>e = 1\<close>, \<open>Mt = 0\<close>: the first update divides by \<open>1 - cos 0 = 0\<close>
  and the loop ends in ZeroDivisionError before any update is made.
\<close>

theorem solver_counterexample:
  "newton_raphson 1 0 (0, 0, 0 - 1 * sin 0 - 0) = Inl ZeroDivisionError"
  by (simp add: newton_raphson.simps[of 1 0 0] solveIterations_def newton_step_def py_div_def)

text \<open>
  Claim C5 for \<open>\<bar>e\<bar> < 1\<close>: started at \<open>E = Mt\<close> with counter 0, the loop returns with
  the counter at 30 and \<open>E\<close> equal to the 30th iterate of the Newton-Raphson update of
  the specification, with \<open>F\<close> the residual there.
\<close>

theorem solver_thirty_updates:
  assumes "\<bar>e\<bar> < 1"
  shows "newton_raphson e Mt (0, Mt, Mt - e * sin Mt - Mt) =
           Inr (30, (newton_update e Mt ^^ 30) Mt,
                (newton_update e Mt ^^ 30) Mt - e * sin ((newton_update e Mt ^^ 30) Mt) - Mt)"
  using newton_raphson_iterates[OF assms, of 0 Mt Mt]
  by (simp add: solveIterations_def Let_def)

text \<open>
  Claim C5 for \<open>\<bar>e\<bar> < 1\<close>, at \<open>e = 1/2\<close>, \<open>Mt = 1\<close>.
\<close>

theorem solver_thirty_updates_witness:
  "\<bar>1 / 2 :: real\<bar> < 1 \<and>
   newton_raphson (1 / 2) 1 (0, 1, 1 - 1 / 2 * sin 1 - 1) =
     Inr (30, (newton_update (1 / 2) 1 ^^ 30) 1,
          (newton_update (1 / 2) 1 ^^ 30) 1 - 1 / 2 * sin ((newton_update (1 / 2) 1 ^^ 30) 1) - 1)"
  using solver_thirty_updates[of "1 / 2" 1] by simp

text \<open>
  Claim C6. For \<open>t \<noteq> t0\<close>, \<open>a > 0\<close> and \<open>mu > 0\<close> the mean anomaly is
  \<open>M0 + 86400 (t - t0) sqrt (mu / a^3)\<close>, with no reduction into \<open>[0, 2 pi)\<close>.
\<close>

theorem mean_anomaly_propagated:
  assumes "t \<noteq> t0" "0 < a" "0 < mu"
  shows "mean_anomaly a t0 t M0 mu = Inr (M0 + 86400 * (t - t0) * sqrt (mu / a ^ 3))"
  using assms mean_anomaly_valid[of a mu t0 t M0] by simp

text \<open>
  Claim C6 at \<open>a = 1\<close>, \<open>mu = 1\<close>, \<open>t0 = 0\<close>, \<open>t = 1\<close>, \<open>M0 = 0\<close>: the mean anomaly is
  86400, which is beyond \<open>2 pi\<close>.
\<close>

theorem mean_anomaly_propagated_witness:
  "(1::real) \<noteq> 0 \<and> (0::real) < 1 \<and> mean_anomaly 1 0 1 0 1 = Inr 86400 \<and> 2 * pi < 86400"
  using mean_anomaly_propagated[of 1 0 1 1 0] pi_less_4 by simp

text \<open>
  Claim C7. If \<open>t = t0\<close> the mean anomaly is \<open>M0\<close> itself.
\<close>

theorem mean_anomaly_at_epoch:
  "t = t0 \<Longrightarrow> mean_anomaly a t0 t M0 mu = Inr M0"
  by (simp add: mean_anomaly_def)

text \<open>
  Claim C7 at the epoch 2451545 with \<open>M0 = 1/3\<close>.
\<close>

theorem mean_anomaly_at_epoch_witness:
  "(2451545::real) = 2451545 \<and> mean_anomaly 7000000 2451545 2451545 (1 / 3) 398600441800000 = Inr (1 / 3)"
  using mean_anomaly_at_epoch[of 2451545 2451545 7000000 "1 / 3" 398600441800000] by simp

text \<open>
  Claim C8 fails for \<open>e = 0\<close>, \<open>Mt = 3 pi\<close>: the eccentric anomaly stays \<open>3 pi\<close>, but the
  true anomaly is \<open>- pi\<close>, and the call raises NameError, so no position is returned.
\<close>

theorem circular_counterexample:
  "newton_raphson 0 (3 * pi) (0, 3 * pi, 3 * pi - 0 * sin (3 * pi) - 3 * pi) = Inr (30, 3 * pi, 0)
   \<and> true_anomaly 0 (3 * pi) = Inr (- pi)
   \<and> - pi \<noteq> 3 * pi
   \<and> keplerian_to_cartesian 1 0 0 0 0 0 0 (3 * pi) 1 = Inl (NameError ''maths'')"
proof (intro conjI)
  have l: "newton_raphson 0 (3 * pi) (0, 3 * pi, 0) = Inr (30, 3 * pi, 0)"
    using newton_raphson_circular[of 0 "3 * pi"] by (simp add: solveIterations_def)
  then show "newton_raphson 0 (3 * pi) (0, 3 * pi, 3 * pi - 0 * sin (3 * pi) - 3 * pi) = Inr (30, 3 * pi, 0)"
    by simp
  have "sin (3 * pi / 2) = - 1" "cos (3 * pi / 2) = 0"
    using sin_3over2_pi cos_3over2_pi by simp_all
  then show "true_anomaly 0 (3 * pi) = Inr (- pi)"
    by (simp add: true_anomaly_def py_sqrt_def atan2_def)
  show "- pi \<noteq> 3 * pi" using pi_gt_zero by linarith
  show "keplerian_to_cartesian 1 0 0 0 0 0 0 (3 * pi) 1 = Inl (NameError ''maths'')"
    using l true_anomaly_valid[of 0 "3 * pi"]
    by (auto simp: keplerian_to_cartesian_unfold mean_anomaly_def orbital_position_NameError)
qed

text \<open>
  Claim C8 as the code has it. For \<open>e = 0\<close> every loop step leaves \<open>E = Mt\<close> and \<open>F = 0\<close>,
  the loop returns \<open>E = Mt\<close> after 30 steps, the orbital radius is \<open>a\<close>, the true anomaly
  is \<open>Mt\<close> when \<open>-2 pi < Mt \<le> 2 pi\<close>, and for every \<open>Mt\<close> it has the cosine and the sine
  of \<open>Mt\<close>.
\<close>

theorem circular_orbit:
  "newton_step 0 Mt (i, Mt, 0) = Inr (i + 1, Mt, 0)
   \<and> newton_raphson 0 Mt (0, Mt, Mt - 0 * sin Mt - Mt) = Inr (30, Mt, 0)
   \<and> orbital_radius a 0 Mt = a
   \<and> (- (2 * pi) < Mt \<and> Mt \<le> 2 * pi \<longrightarrow> true_anomaly 0 Mt = Inr Mt)
   \<and> (\<exists>nu. true_anomaly 0 Mt = Inr nu \<and> cos nu = cos Mt \<and> sin nu = sin Mt)"
proof (intro conjI impI)
  show "newton_step 0 Mt (i, Mt, 0) = Inr (i + 1, Mt, 0)"
    by (simp add: newton_step_def py_div_def)
  show "newton_raphson 0 Mt (0, Mt, Mt - 0 * sin Mt - Mt) = Inr (30, Mt, 0)"
    using newton_raphson_circular[of 0 Mt] by (simp add: solveIterations_def)
  show "orbital_radius a 0 Mt = a" by (simp add: orbital_radius_def)
  show "true_anomaly 0 Mt = Inr Mt" if "- (2 * pi) < Mt \<and> Mt \<le> 2 * pi"
    using that by (simp add: true_anomaly_circular)
  show "\<exists>nu. true_anomaly 0 Mt = Inr nu \<and> cos nu = cos Mt \<and> sin nu = sin Mt"
    by (rule true_anomaly_circular_cos_sin)
qed

text \<open>
  Claim C8 as the code has it, at \<open>Mt = pi\<close>.
\<close>

theorem circular_orbit_witness:
  "(- (2 * pi) < pi \<and> pi \<le> 2 * pi) \<and> true_anomaly 0 pi = Inr pi
   \<and> newton_raphson 0 pi (0, pi, pi - 0 * sin pi - pi) = Inr (30, pi, 0)"
  using circular_orbit[of pi 0 1] pi_gt_zero by simp

text \<open>
  Claim C9. At \<open>a = 7000000\<close>, \<open>e = 0\<close>, \<open>w = omega = i = 0\<close>, \<open>t0 = t = 0\<close>, \<open>M0 = 0\<close>,
  \<open>mu = 3.986004418e14\<close> the call raises NameError; it returns no position or velocity.
\<close>

theorem concrete_scenario_NameError:
  "keplerian_to_cartesian 7000000 0 0 0 0 0 0 0 398600441800000 = Inl (NameError ''maths'')"
  using newton_raphson_fixed[of 0 0 0 0]
  by (simp add: keplerian_to_cartesian_unfold mean_anomaly_def solveIterations_def
      true_anomaly_def py_sqrt_def orbital_position_NameError)

section \<open>Properties of the catalogue merge\<close>

lemma dict_update_map_of:
  "distinct (map fst y) \<Longrightarrow> map_of (dict_update x y) = map_of x ++ map_of y"
proof (induction y arbitrary: x)
  case Nil
  then show ?case by (simp add: dict_update_def)
next
  case (Cons p ps)
  obtain k v where p: "p = (k, v)" by (cases p)
  from Cons.prems p have kn: "map_of ps k = None" and d: "distinct (map fst ps)"
    by (auto simp: map_of_eq_None_iff)
  have "map_of (dict_update x (p # ps)) = map_of (dict_update (AList.update k v x) ps)"
    by (simp add: dict_update_def p)
  also have "\<dots> = (map_of x)(k \<mapsto> v) ++ map_of ps"
    by (simp only: Cons.IH[OF d] update_conv')
  also have "\<dots> = map_of x ++ map_of (p # ps)"
  proof (rule ext)
    fix f
    show "((map_of x)(k \<mapsto> v) ++ map_of ps) f = (map_of x ++ map_of (p # ps)) f"
      using kn by (cases "f = k") (simp_all add: p map_add_def split: option.splits)
  qed
  finally show ?case .
qed

lemma merge_loop_Cons:
  "merge_loop ((k, b) # bodies) bodies_prev = merge_loop bodies (merge_step (k, b) bodies_prev)"
  by (simp add: merge_loop_def)

lemma update_absent: "map_of al k = None \<Longrightarrow> AList.update k v al = al @ [(k, v)]"
  by (induction al) (auto split: if_splits)

lemma update_present:
  "distinct (map fst al) \<Longrightarrow> map_of al k = Some p \<Longrightarrow>
   AList.update k v al = map (\<lambda>(k', p'). (k', if k' = k then v else p')) al"
proof (induction al)
  case Nil
  then show ?case by simp
next
  case (Cons x al)
  obtain k' p' where x: "x = (k', p')" by (cases x)
  show ?case
  proof (cases "k' = k")
    case True
    with Cons.prems x have "k \<notin> fst ` set al" by auto
    then have "map (\<lambda>(k', p'). (k', if k' = k then v else p')) al = al"
      by (induction al) auto
    with True x show ?thesis by simp
  next
    case False
    with Cons x show ?thesis by simp
  qed
qed

lemma replace_keys: "map fst (map (\<lambda>(k', p'). (k', g k' p')) al) = map fst al"
  by (induction al) auto

lemma replace_None: "(map_of (map (\<lambda>(k', p'). (k', g k' p')) al) x = None) = (map_of al x = None)"
  by (induction al) auto

lemma merge_loop_exact:
  "distinct (map fst bodies) \<Longrightarrow> distinct (map fst bodies_prev) \<Longrightarrow>
   merge_loop bodies bodies_prev =
     map (merged_entry bodies) bodies_prev
     @ filter (\<lambda>(k, b). map_of bodies_prev k = None) bodies"
proof (induction bodies arbitrary: bodies_prev)
  case Nil
  have "map (merged_entry []) bodies_prev = bodies_prev"
    by (induction bodies_prev) (auto simp: merged_entry_def)
  then show ?case by (simp add: merge_loop_def)
next
  case (Cons item bodies)
  obtain k b where item: "item = (k, b)" by (cases item)
  from Cons.prems item have kn: "map_of bodies k = None" and d: "distinct (map fst bodies)"
    and kb: "k \<notin> fst ` set bodies"
    by (auto simp: map_of_eq_None_iff)
  show ?case
  proof (cases "map_of bodies_prev k")
    case None
    then have kp: "k \<notin> fst ` set bodies_prev" by (simp add: map_of_eq_None_iff)
    have st: "merge_step (k, b) bodies_prev = bodies_prev @ [(k, b)]"
      by (simp add: merge_step_def None update_absent)
    have dp: "distinct (map fst (bodies_prev @ [(k, b)]))"
      using Cons.prems(2) kp by auto
    have m1: "map (merged_entry bodies) bodies_prev = map (merged_entry ((k, b) # bodies)) bodies_prev"
      using kp by (intro map_cong refl) (force simp: merged_entry_def)
    have m2: "merged_entry bodies (k, b) = (k, b)"
      by (simp add: merged_entry_def kn)
    have f: "filter (\<lambda>(k', b'). map_of (bodies_prev @ [(k, b)]) k' = None) bodies
           = filter (\<lambda>(k', b'). map_of bodies_prev k' = None) bodies"
      using kb by (intro filter_cong refl) (force simp: map_add_def split: option.splits)
    show ?thesis
      unfolding item merge_loop_Cons st Cons.IH[OF d dp] f
      by (simp add: m1[symmetric] m2 None)
  next
    case (Some prev)
    have st: "merge_step (k, b) bodies_prev
                = map (\<lambda>(k', p'). (k', if k' = k then dict_update prev b else p')) bodies_prev"
      by (simp add: merge_step_def Some update_present[OF Cons.prems(2) Some])
    let ?P = "map (\<lambda>(k', p'). (k', if k' = k then dict_update prev b else p')) bodies_prev"
    have keys: "map fst ?P = map fst bodies_prev" by (rule replace_keys)
    have dp: "distinct (map fst ?P)" unfolding keys by (rule Cons.prems(2))
    have none: "(map_of ?P k' = None) = (map_of bodies_prev k' = None)" for k'
      by (rule replace_None)
    have m1: "map (merged_entry bodies) ?P = map (merged_entry ((k, b) # bodies)) bodies_prev"
    proof -
      have "merged_entry bodies (k', if k' = k then dict_update prev b else p')
              = merged_entry ((k, b) # bodies) (k', p')"
        if "(k', p') \<in> set bodies_prev" for k' p'
      proof (cases "k' = k")
        case True
        with that Some Cons.prems(2) have "p' = prev" by simp
        with True show ?thesis by (simp add: merged_entry_def kn)
      next
        case False
        then show ?thesis by (simp add: merged_entry_def)
      qed
      then have "merged_entry bodies (case x of (k', p') \<Rightarrow> (k', if k' = k then dict_update prev b else p'))
              = merged_entry ((k, b) # bodies) x" if "x \<in> set bodies_prev" for x
        using that by (cases x) simp
      then show ?thesis unfolding map_map comp_def by (rule map_cong[OF refl])
    qed
    have f: "filter (\<lambda>(k', b'). map_of ?P k' = None) bodies
           = filter (\<lambda>(k', b'). map_of bodies_prev k' = None) ((k, b) # bodies)"
      unfolding none using Some by simp
    show ?thesis
      unfolding item merge_loop_Cons st Cons.IH[OF d dp] m1 f by (rule refl)
  qed
qed

lemma merged_bodies_exact:
  assumes "distinct (map fst bodies)" and "distinct (map fst bodies_prev)"
  shows "merged_bodies bodies bodies_prev =
           map (\<lambda>(k, prev). case map_of bodies k of None \<Rightarrow> prev | Some fresh \<Rightarrow> dict_update prev fresh)
             bodies_prev
           @ map snd (filter (\<lambda>(k, b). map_of bodies_prev k = None) bodies)"
proof -
  have "map snd (map (merged_entry bodies) bodies_prev) =
          map (\<lambda>(k, prev). case map_of bodies k of None \<Rightarrow> prev | Some fresh \<Rightarrow> dict_update prev fresh)
            bodies_prev"
    unfolding map_map comp_def
    by (rule map_cong[OF refl]) (simp add: merged_entry_def case_prod_beta)
  then show ?thesis
    unfolding merged_bodies_def merge_loop_exact[OF assms] by simp
qed

lemma warnings_iff:
  "line \<in> set (warnings fmt bodies) \<longleftrightarrow>
     (\<exists>body \<in> set bodies. \<exists>n. map_of body ''name'' = Some n \<and>
        ((map_of body ''colour'' = None
            \<and> line = ''WARNING: '' @ fmt n @ '' has not been designated a colour'')
       \<or> (map_of body ''parent'' = None
            \<and> line = ''WARNING: '' @ fmt n @ '' has no parent'')))"
proof -
  have one: "line \<in> set (colour_warning fmt body @ parent_warning fmt body) \<longleftrightarrow>
     (\<exists>n. map_of body ''name'' = Some n \<and>
        ((map_of body ''colour'' = None
            \<and> line = ''WARNING: '' @ fmt n @ '' has not been designated a colour'')
       \<or> (map_of body ''parent'' = None
            \<and> line = ''WARNING: '' @ fmt n @ '' has no parent'')))" for body
    by (cases "map_of body ''name''") (auto simp: colour_warning_def parent_warning_def)
  have "line \<in> set (warnings fmt bodies) \<longleftrightarrow>
          (\<exists>body \<in> set bodies. line \<in> set (colour_warning fmt body @ parent_warning fmt body))"
    unfolding warnings_def set_concat by (simp only: set_map UN_iff bex_simps image_iff)
  then show ?thesis unfolding one .
qed

section \<open>The claim about the catalogue merge\<close>

text \<open>
  Claim C10. With the keys of the fetched and of the stored catalogue distinct (they are
  the keys of Python dicts), the merged bodies are, in order: every stored body, with the
  fields of its fetch laid over it when it was fetched, and then every fetched body that
  was not stored. Laying a fetch over a stored body gives, for every field, the fetched
  value when the fetch has the field and the stored value otherwise (so a stored
  \<open>colour\<close> or \<open>parent\<close> that the fetch lacks is kept). The lines printed after the merge
  are exactly the colour warnings of the merged bodies that have a name and no
  \<open>colour\<close>, and the parent warnings of those that have a name and no \<open>parent\<close>.
\<close>

theorem catalogue_merge:
  fixes bodies bodies_prev :: "(string \<times> 'v body) list"
  assumes "distinct (map fst bodies)" and "distinct (map fst bodies_prev)"
  shows "merged_bodies bodies bodies_prev =
           map (\<lambda>(k, prev). case map_of bodies k of None \<Rightarrow> prev | Some fresh \<Rightarrow> dict_update prev fresh)
             bodies_prev
           @ map snd (filter (\<lambda>(k, b). map_of bodies_prev k = None) bodies)
       \<and> (\<forall>(prev :: 'v body) fresh f. distinct (map fst fresh) \<longrightarrow>
            map_of (dict_update prev fresh) f
              = (case map_of fresh f of Some v \<Rightarrow> Some v | None \<Rightarrow> map_of prev f))
       \<and> (\<forall>line. line \<in> set (warnings fmt (merged_bodies bodies bodies_prev)) \<longleftrightarrow>
            (\<exists>body \<in> set (merged_bodies bodies bodies_prev). \<exists>n. map_of body ''name'' = Some n \<and>
               ((map_of body ''colour'' = None
                   \<and> line = ''WARNING: '' @ fmt n @ '' has not been designated a colour'')
              \<or> (map_of body ''parent'' = None
                   \<and> line = ''WARNING: '' @ fmt n @ '' has no parent''))))"
proof (intro conjI allI impI)
  show "merged_bodies bodies bodies_prev =
           map (\<lambda>(k, prev). case map_of bodies k of None \<Rightarrow> prev | Some fresh \<Rightarrow> dict_update prev fresh)
             bodies_prev
           @ map snd (filter (\<lambda>(k, b). map_of bodies_prev k = None) bodies)"
    using assms by (rule merged_bodies_exact)
next
  fix prev fresh :: "'v body" and f
  assume "distinct (map fst fresh)"
  then show "map_of (dict_update prev fresh) f
              = (case map_of fresh f of Some v \<Rightarrow> Some v | None \<Rightarrow> map_of prev f)"
    by (simp add: dict_update_map_of map_add_def split: option.splits)
next
  fix line
  show "line \<in> set (warnings fmt (merged_bodies bodies bodies_prev)) \<longleftrightarrow>
            (\<exists>body \<in> set (merged_bodies bodies bodies_prev). \<exists>n. map_of body ''name'' = Some n \<and>
               ((map_of body ''colour'' = None
                   \<and> line = ''WARNING: '' @ fmt n @ '' has not been designated a colour'')
              \<or> (map_of body ''parent'' = None
                   \<and> line = ''WARNING: '' @ fmt n @ '' has no parent'')))"
    by (rule warnings_iff)
qed

text \<open>
  Claim C10 for three bodies. The Sun is fetched with the name \<open>Sun\<close> and stored with
  the name \<open>Sol\<close> and the colour yellow; the Moon is stored only, with a parent and no
  colour; Ceres is fetched only, with a parent and no colour. The merged Sun has the fetched
  name and the stored colour; the warnings are the parent warning of the Sun and the colour
  warnings of the Moon and of Ceres.
\<close>

theorem catalogue_merge_witness:
  "distinct (map fst
      [(''sun'', [(''identifier'', ''sun''), (''name'', ''Sun''), (''body_type'', ''star'')]),
       (''ceres'', [(''identifier'', ''ceres''), (''name'', ''Ceres''), (''parent'', ''sun'')])])
   \<and> distinct (map fst
      [(''sun'', [(''identifier'', ''sun''), (''name'', ''Sol''), (''colour'', ''yellow'')]),
       (''moon'', [(''identifier'', ''moon''), (''name'', ''Moon''), (''parent'', ''earth'')])])
   \<and> merged_bodies
      [(''sun'', [(''identifier'', ''sun''), (''name'', ''Sun''), (''body_type'', ''star'')]),
       (''ceres'', [(''identifier'', ''ceres''), (''name'', ''Ceres''), (''parent'', ''sun'')])]
      [(''sun'', [(''identifier'', ''sun''), (''name'', ''Sol''), (''colour'', ''yellow'')]),
       (''moon'', [(''identifier'', ''moon''), (''name'', ''Moon''), (''parent'', ''earth'')])]
     = [[(''identifier'', ''sun''), (''name'', ''Sun''), (''colour'', ''yellow''), (''body_type'', ''star'')],
        [(''identifier'', ''moon''), (''name'', ''Moon''), (''parent'', ''earth'')],
        [(''identifier'', ''ceres''), (''name'', ''Ceres''), (''parent'', ''sun'')]]
   \<and> warnings (\<lambda>v. v) (merged_bodies
      [(''sun'', [(''identifier'', ''sun''), (''name'', ''Sun''), (''body_type'', ''star'')]),
       (''ceres'', [(''identifier'', ''ceres''), (''name'', ''Ceres''), (''parent'', ''sun'')])]
      [(''sun'', [(''identifier'', ''sun''), (''name'', ''Sol''), (''colour'', ''yellow'')]),
       (''moon'', [(''identifier'', ''moon''), (''name'', ''Moon''), (''parent'', ''earth'')])])
     = [''WARNING: Sun has no parent'',
        ''WARNING: Moon has not been designated a colour'',
        ''WARNING: Ceres has not been designated a colour'']
   \<and> distinct (map fst [(''identifier'', ''sun''), (''name'', ''Sun''), (''body_type'', ''star'')])
   \<and> map_of (dict_update [(''identifier'', ''sun''), (''name'', ''Sol''), (''colour'', ''yellow'')]
                 [(''identifier'', ''sun''), (''name'', ''Sun''), (''body_type'', ''star'')]) ''name''
       = Some ''Sun''
   \<and> map_of (dict_update [(''identifier'', ''sun''), (''name'', ''Sol''), (''colour'', ''yellow'')]
                 [(''identifier'', ''sun''), (''name'', ''Sun''), (''body_type'', ''star'')]) ''colour''
       = Some ''yellow''"
proof -
  let ?B = "[(''sun'', [(''identifier'', ''sun''), (''name'', ''Sun''), (''body_type'', ''star'')]),
       (''ceres'', [(''identifier'', ''ceres''), (''name'', ''Ceres''), (''parent'', ''sun'')])]"
  let ?P = "[(''sun'', [(''identifier'', ''sun''), (''name'', ''Sol''), (''colour'', ''yellow'')]),
       (''moon'', [(''identifier'', ''moon''), (''name'', ''Moon''), (''parent'', ''earth'')])]"
  have h1: "distinct (map fst ?B)" by simp
  have h2: "distinct (map fst ?P)" by simp
  have m: "merged_bodies ?B ?P
     = [[(''identifier'', ''sun''), (''name'', ''Sun''), (''colour'', ''yellow''), (''body_type'', ''star'')],
        [(''identifier'', ''moon''), (''name'', ''Moon''), (''parent'', ''earth'')],
        [(''identifier'', ''ceres''), (''name'', ''Ceres''), (''parent'', ''sun'')]]"
    using catalogue_merge[OF h1 h2, THEN conjunct1] by (simp add: dict_update_def)
  have w: "warnings (\<lambda>v. v) (merged_bodies ?B ?P)
     = [''WARNING: Sun has no parent'',
        ''WARNING: Moon has not been designated a colour'',
        ''WARNING: Ceres has not been designated a colour'']"
    unfolding m by (simp add: warnings_def colour_warning_def parent_warning_def)
  let ?fresh = "[(''identifier'', ''sun''), (''name'', ''Sun''), (''body_type'', ''star'')]"
  let ?prev = "[(''identifier'', ''sun''), (''name'', ''Sol''), (''colour'', ''yellow'')]"
  have h3: "distinct (map fst ?fresh)" by simp
  have f: "map_of (dict_update ?prev ?fresh) f
             = (case map_of ?fresh f of Some v \<Rightarrow> Some v | None \<Rightarrow> map_of ?prev f)" for f
    using catalogue_merge[OF h1 h2, THEN conjunct2, THEN conjunct1] h3 by blast
  have n: "map_of (dict_update ?prev ?fresh) ''name'' = Some ''Sun''"
    unfolding f by simp
  have c: "map_of (dict_update ?prev ?fresh) ''colour'' = Some ''yellow''"
    unfolding f by simp
  show ?thesis using h1 h2 m w h3 n c by blast
qed

end
